theory Spec2Isabelle
  imports Complex_Main
begin

section \<open>The shell fragment the scripts are written in\<close>

text \<open>
  Every script of the repository is a sequence of variable assignments, one function
  definition and simple commands, one per line. A word of a command is an unquoted
  literal (\<open>Lit\<close>), a double-quoted literal (\<open>DQ\<close>), an unquoted variable \<open>$name\<close>
  (\<open>Var\<close>) or an unquoted positional parameter \<open>$n\<close> with \<open>n \<ge> 1\<close> (\<open>Pos\<close>).
  No quoted string of the scripts holds a dollar sign, a backquote or a backslash, so a
  quoted word stands for itself. A command line ends at the newline (\<open>Simple\<close>, the shell
  waits for it) or at an ampersand (\<open>Async\<close>, the shell does not wait).
\<close>

datatype word = Lit string | DQ string | Var string | Pos nat

datatype cmd = Simple "word list" | Async "word list"

datatype stmt =
    Assign string string
  | FunDef string cmd
  | Run cmd

type_synonym script = "stmt list"

text \<open>
  What a run of a script does that can be observed: a line written to standard output,
  an external process started with its argument vector, and an external process that
  returned with its exit code.
\<close>

datatype event =
    Printed string
  | Started "string list"
  | Exited "string list" nat

record shell =
  vars :: "(string \<times> string) list"
  funs :: "(string \<times> cmd) list"
  errexit :: bool
  status :: nat
  halted :: bool
  spawned :: nat
  out :: "event list"

definition init_shell :: shell where
  "init_shell = \<lparr>vars = [], funs = [], errexit = False, status = 0, halted = False,
     spawned = 0, out = []\<rparr>"

text \<open>
  The exit code of the \<open>i\<close>-th external process the script starts, given its argument
  vector: the training program is not part of the repository, so its outcome is a
  parameter of every run.
\<close>

type_synonym extern = "nat \<Rightarrow> string list \<Rightarrow> nat"

subsection \<open>Expansion of words\<close>

definition ifs :: "char \<Rightarrow> bool" where
  "ifs c = (c = CHR '' '' \<or> c = CHR 0x09 \<or> c = CHR 0x0A)"

text \<open>Field splitting of an unquoted expansion at blanks; empty fields vanish.\<close>

fun split_fields :: "string \<Rightarrow> string \<Rightarrow> string list" where
  "split_fields cur [] = (if cur = [] then [] else [cur])"
| "split_fields cur (c # cs) =
     (if ifs c then (if cur = [] then split_fields [] cs else cur # split_fields [] cs)
      else split_fields (cur @ [c]) cs)"

fun expand :: "(string \<times> string) list \<Rightarrow> string list \<Rightarrow> word \<Rightarrow> string list" where
  "expand vs args (Lit s) = [s]"
| "expand vs args (DQ s) = [s]"
| "expand vs args (Var v) =
     split_fields [] (case map_of vs v of None \<Rightarrow> [] | Some x \<Rightarrow> x)"
| "expand vs args (Pos n) =
     split_fields [] (if 0 < n \<and> n \<le> length args then args ! (n - 1) else [])"

definition expand_words :: "(string \<times> string) list \<Rightarrow> string list \<Rightarrow> word list \<Rightarrow> string list" where
  "expand_words vs args ws = concat (map (expand vs args) ws)"

fun words_of :: "cmd \<Rightarrow> word list" where
  "words_of (Simple ws) = ws"
| "words_of (Async ws) = ws"

fun is_async :: "cmd \<Rightarrow> bool" where
  "is_async (Simple ws) = False"
| "is_async (Async ws) = True"

subsection \<open>Execution\<close>

fun unwords :: "string list \<Rightarrow> string" where
  "unwords [] = []"
| "unwords [w] = w"
| "unwords (w # v # ws) = w @ '' '' @ unwords (v # ws)"

text \<open>
  A command that is no function: the builtin \<open>echo\<close> prints its arguments joined by
  single blanks, the builtin \<open>set\<close> switches \<open>errexit\<close> on when given \<open>-e\<close>, and any
  other name is an external program. In the foreground the shell starts the program,
  waits for it and takes its exit code as \<open>$?\<close>; in the background it starts the
  program and goes on with status 0.
\<close>

definition run_simple :: "extern \<Rightarrow> bool \<Rightarrow> string list \<Rightarrow> shell \<Rightarrow> shell" where
  "run_simple ext bg argv s =
     (case argv of
        [] \<Rightarrow> s\<lparr>status := 0\<rparr>
      | c # as \<Rightarrow>
          if c = ''echo'' then s\<lparr>status := 0, out := out s @ [Printed (unwords as)]\<rparr>
          else if c = ''set'' then
            s\<lparr>errexit := (errexit s \<or> (\<not> bg \<and> ''-e'' \<in> set as)), status := 0\<rparr>
          else if bg then
            s\<lparr>status := 0, spawned := Suc (spawned s), out := out s @ [Started argv]\<rparr>
          else
            s\<lparr>status := ext (spawned s) argv, spawned := Suc (spawned s),
              out := out s @ [Started argv, Exited argv (ext (spawned s) argv)]\<rparr>)"

text \<open>
  A command line is expanded with the positional parameters of the script (none: the
  scripts are started without arguments). When its first word names a function, the
  function's body is expanded with the remaining words as \<open>$1\<close>, \<open>$2\<close>, ... and run.
  The only function bodies of the repository are one external command, so a body is run
  as a command that is no function.
\<close>

definition run_cmd :: "extern \<Rightarrow> cmd \<Rightarrow> shell \<Rightarrow> shell" where
  "run_cmd ext c s =
     (case expand_words (vars s) [] (words_of c) of
        [] \<Rightarrow> s\<lparr>status := 0\<rparr>
      | f # args \<Rightarrow>
          (case map_of (funs s) f of
             Some body \<Rightarrow>
               run_simple ext (is_async c \<or> is_async body)
                 (expand_words (vars s) args (words_of body)) s
           | None \<Rightarrow> run_simple ext (is_async c) (f # args) s))"

fun step :: "extern \<Rightarrow> stmt \<Rightarrow> shell \<Rightarrow> shell" where
  "step ext (Assign x v) s = s\<lparr>vars := (x, v) # vars s, status := 0\<rparr>"
| "step ext (FunDef f body) s = s\<lparr>funs := (f, body) # funs s, status := 0\<rparr>"
| "step ext (Run c) s = run_cmd ext c s"

text \<open>
  The statements run in order. Nothing but \<open>errexit\<close> makes the shell look at the exit
  status of a finished command: with it, a nonzero status ends the script.
\<close>

fun run :: "extern \<Rightarrow> script \<Rightarrow> shell \<Rightarrow> shell" where
  "run ext [] s = s"
| "run ext (st # sts) s =
     (if halted s then s
      else let s' = step ext st s
           in run ext sts (if errexit s' \<and> status s' \<noteq> 0 then s'\<lparr>halted := True\<rparr> else s'))"

definition trace :: "extern \<Rightarrow> script \<Rightarrow> event list" where
  "trace ext sc = out (run ext sc init_shell)"

section \<open>The scripts\<close>

text \<open>\<open>scripts/baseline.sh\<close>\<close>

definition baseline_sh :: script where
  "baseline_sh =
    [Assign ''env'' ''SpaceInvadersNoFrameskip-v4'',
     Assign ''path_to_poetry'' ''/home/omar/miniconda3/envs/175-env/bin/poetry'',
     FunDef ''run_python_command'' (Simple
       [Var ''path_to_poetry'', Lit ''run'', Lit ''python'', Lit ''cleanrl/dqn_atari.py'',
        Lit ''--env-id'', Var ''env'',
        Lit ''--capture_video'',
        Lit ''--buffer_size'', Lit ''100000'',
        Lit ''--save_model'',
        Lit ''--track'']),
     Run (Simple [Lit ''echo'', DQ ''Creating baseline model'']),
     Run (Simple [Lit ''echo'', Lit ''run_python_command'']),
     Run (Simple [Lit ''run_python_command'']),
     Run (Simple [Lit ''echo'', DQ ''Finished creating baseline model''])]"

text \<open>
  \<open>unnamed/part_000\<close>: the sweep of PPO runs marked \<open>L1\<close>. Its function passes no
  \<open>--prune_method\<close>.
\<close>

definition part_000 :: script where
  "part_000 =
    [Assign ''env'' ''SpaceInvadersNoFrameskip-v4'',
     Assign ''path_to_poetry'' ''/home/omar/miniconda3/envs/175-env/bin/poetry'',
     FunDef ''run_python_command'' (Simple
       [Var ''path_to_poetry'', Lit ''run'', Lit ''python'', Lit ''cleanrl/ppo_atari.py'',
        Lit ''--exp_name'', Pos 1,
        Lit ''--env-id'', Var ''env'',
        Lit ''--capture_video'',
        Lit ''--save_model'',
        Lit ''--total_timesteps'', Lit ''2000000'',
        Lit ''--track'',
        Lit ''--prune'',
        Lit ''--prune_amount'', Pos 2]),
     Run (Simple [Lit ''echo'', DQ ''Starting Baseline'']),
     Run (Simple [Lit ''echo'', Lit ''run_python_command'']),
     Run (Simple [Lit ''run_python_command'', DQ ''Baseline'', Lit ''0'']),
     Run (Simple [Lit ''echo'', DQ ''Finished Baseline'']),
     Run (Simple [Lit ''echo'', DQ ''Starting L1 0.1'']),
     Run (Simple [Lit ''echo'', Lit ''run_python_command'']),
     Run (Simple [Lit ''run_python_command'', DQ ''L1_0.1'', Lit ''0.1'']),
     Run (Simple [Lit ''echo'', DQ ''Finished L1 0.1'']),
     Run (Simple [Lit ''echo'', DQ ''Starting L1 0.3'']),
     Run (Simple [Lit ''echo'', Lit ''run_python_command'']),
     Run (Simple [Lit ''run_python_command'', DQ ''L1_0.3'', Lit ''0.3'']),
     Run (Simple [Lit ''echo'', DQ ''Finished L1 0.3'']),
     Run (Simple [Lit ''echo'', DQ ''Starting L1 0.5'']),
     Run (Simple [Lit ''echo'', Lit ''run_python_command'']),
     Run (Simple [Lit ''run_python_command'', DQ ''L1_0.5'', Lit ''0.5'']),
     Run (Simple [Lit ''echo'', DQ ''Finished L1 0.5''])]"

text \<open>
  \<open>unnamed/part_001\<close>: the sweep of DQN runs with random pruning. The four lines of a
  \<open>Baseline\<close> run are comments in the source and so are no statements here.
\<close>

definition part_001 :: script where
  "part_001 =
    [Assign ''env'' ''SpaceInvadersNoFrameskip-v4'',
     Assign ''path_to_poetry'' ''/home/omar/miniconda3/envs/175-env/bin/poetry'',
     FunDef ''run_python_command'' (Simple
       [Var ''path_to_poetry'', Lit ''run'', Lit ''python'', Lit ''cleanrl/dqn_atari.py'',
        Lit ''--exp_name'', Pos 1,
        Lit ''--env-id'', Var ''env'',
        Lit ''--capture_video'',
        Lit ''--buffer_size'', Lit ''100000'',
        Lit ''--save_model'',
        Lit ''--total_timesteps'', Lit ''2000000'',
        Lit ''--track'',
        Lit ''--prune'',
        Lit ''--prune_method'', DQ ''random'',
        Lit ''--prune_amount'', Pos 2]),
     Run (Simple [Lit ''echo'', DQ ''Starting R 0.05'']),
     Run (Simple [Lit ''echo'', Lit ''run_python_command'']),
     Run (Simple [Lit ''run_python_command'', DQ ''R_0.05'', Lit ''0.05'']),
     Run (Simple [Lit ''echo'', DQ ''Finished R 0.01'']),
     Run (Simple [Lit ''echo'', DQ ''Starting R 0.1'']),
     Run (Simple [Lit ''echo'', Lit ''run_python_command'']),
     Run (Simple [Lit ''run_python_command'', DQ ''R_0.1'', Lit ''0.1'']),
     Run (Simple [Lit ''echo'', DQ ''Finished R 0.1'']),
     Run (Simple [Lit ''echo'', DQ ''Starting R 0.3'']),
     Run (Simple [Lit ''echo'', Lit ''run_python_command'']),
     Run (Simple [Lit ''run_python_command'', DQ ''R_0.3'', Lit ''0.3'']),
     Run (Simple [Lit ''echo'', DQ ''Finished R 0.3'']),
     Run (Simple [Lit ''echo'', DQ ''Starting R 0.5'']),
     Run (Simple [Lit ''echo'', Lit ''run_python_command'']),
     Run (Simple [Lit ''run_python_command'', DQ ''R_0.5'', Lit ''0.5'']),
     Run (Simple [Lit ''echo'', DQ ''Finished R 0.5'']),
     Run (Simple [Lit ''echo'', DQ ''Starting R 0.8'']),
     Run (Simple [Lit ''echo'', Lit ''run_python_command'']),
     Run (Simple [Lit ''run_python_command'', DQ ''R_0.8'', Lit ''0.8'']),
     Run (Simple [Lit ''echo'', DQ ''Finished R 0.8''])]"

text \<open>\<open>unnamed/part_002\<close>: one short PPO run with random pruning.\<close>

definition part_002 :: script where
  "part_002 =
    [Assign ''env'' ''SpaceInvadersNoFrameskip-v4'',
     Assign ''path_to_poetry'' ''/home/omar/miniconda3/envs/175-env/bin/poetry'',
     FunDef ''run_python_command'' (Simple
       [Var ''path_to_poetry'', Lit ''run'', Lit ''python'', Lit ''cleanrl/ppo_atari.py'',
        Lit ''--exp_name'', Pos 1,
        Lit ''--env-id'', Var ''env'',
        Lit ''--capture_video'',
        Lit ''--total_timesteps'', Lit ''10000'',
        Lit ''--track'',
        Lit ''--prune'',
        Lit ''--prune_amount'', Pos 2,
        Lit ''--prune_method'', DQ ''random'',
        Lit ''--save_model'']),
     Run (Simple [Lit ''echo'', DQ ''Starting L1 0.1'']),
     Run (Simple [Lit ''echo'', Lit ''run_python_command'']),
     Run (Simple [Lit ''run_python_command'', DQ ''ppo_sanity'', Lit ''0.1'']),
     Run (Simple [Lit ''echo'', DQ ''Finished L1 0.1''])]"

text \<open>\<open>src/scripts/ppo/random_test.sh\<close>: the sweep of PPO runs with random pruning.\<close>

definition ppo_random_test_sh :: script where
  "ppo_random_test_sh =
    [Assign ''env'' ''SpaceInvadersNoFrameskip-v4'',
     Assign ''path_to_poetry'' ''/home/omar/miniconda3/envs/175-env/bin/poetry'',
     FunDef ''run_python_command'' (Simple
       [Var ''path_to_poetry'', Lit ''run'', Lit ''python'', Lit ''cleanrl/ppo_atari.py'',
        Lit ''--exp_name'', Pos 1,
        Lit ''--env-id'', Var ''env'',
        Lit ''--capture_video'',
        Lit ''--total_timesteps'', Lit ''2000000'',
        Lit ''--track'',
        Lit ''--prune'',
        Lit ''--prune_amount'', Pos 2,
        Lit ''--prune_method'', DQ ''random'',
        Lit ''--save_model'']),
     Run (Simple [Lit ''echo'', DQ ''Starting R 0.1'']),
     Run (Simple [Lit ''echo'', Lit ''run_python_command'']),
     Run (Simple [Lit ''run_python_command'', DQ ''ppo_R_0.1'', Lit ''0.1'']),
     Run (Simple [Lit ''echo'', DQ ''Finished R 0.1'']),
     Run (Simple [Lit ''echo'', DQ ''Starting R 0.3'']),
     Run (Simple [Lit ''echo'', Lit ''run_python_command'']),
     Run (Simple [Lit ''run_python_command'', DQ ''ppo_R_0.3'', Lit ''0.3'']),
     Run (Simple [Lit ''echo'', DQ ''Finished R 0.3'']),
     Run (Simple [Lit ''echo'', DQ ''Starting R 0.5'']),
     Run (Simple [Lit ''echo'', Lit ''run_python_command'']),
     Run (Simple [Lit ''run_python_command'', DQ ''ppo_R_0.5'', Lit ''0.5'']),
     Run (Simple [Lit ''echo'', DQ ''Finished R 0.5''])]"

definition all_scripts :: "script list" where
  "all_scripts = [baseline_sh, part_000, part_001, part_002, ppo_random_test_sh]"

text \<open>The scripts that run the training program at several sweep points.\<close>

definition sweep_scripts :: "script list" where
  "sweep_scripts = [part_000, part_001, ppo_random_test_sh]"

section \<open>Reading a run\<close>

text \<open>The argument vectors of the external processes a run started, in order.\<close>

fun invocations :: "event list \<Rightarrow> string list list" where
  "invocations [] = []"
| "invocations (Started argv # tr) = argv # invocations tr"
| "invocations (e # tr) = invocations tr"

fun printed :: "event list \<Rightarrow> string list" where
  "printed [] = []"
| "printed (Printed l # tr) = l # printed tr"
| "printed (e # tr) = printed tr"

text \<open>The flags of a command line are its words that begin with two dashes.\<close>

definition flags :: "string list \<Rightarrow> string list" where
  "flags argv = filter (\<lambda>w. take 2 w = ''--'') argv"

definition training_flags :: "string set" where
  "training_flags = {''--exp_name'', ''--env-id'', ''--capture_video'', ''--buffer_size'',
     ''--save_model'', ''--total_timesteps'', ''--track'', ''--prune'', ''--prune_amount'',
     ''--prune_method''}"

text \<open>The word that follows a flag on a command line, if the flag is there.\<close>

fun flag_value :: "string \<Rightarrow> string list \<Rightarrow> string option" where
  "flag_value f [] = None"
| "flag_value f [w] = None"
| "flag_value f (w # v # ws) = (if w = f then Some v else flag_value f (v # ws))"

text \<open>The sweep point of a command line: its experiment name and its pruning amount.\<close>

definition point_of :: "string list \<Rightarrow> (string \<times> string) option" where
  "point_of argv =
     (case (flag_value ''--exp_name'' argv, flag_value ''--prune_amount'' argv) of
        (Some n, Some a) \<Rightarrow> Some (n, a)
      | _ \<Rightarrow> None)"

text \<open>
  The sweep list of a script, read off its text: the pairs of arguments of its calls
  \<open>run_python_command name amount\<close>, in order.
\<close>

fun word_text :: "word \<Rightarrow> string" where
  "word_text (Lit s) = s"
| "word_text (DQ s) = s"
| "word_text (Var v) = []"
| "word_text (Pos n) = []"

fun call_args :: "stmt \<Rightarrow> (string \<times> string) list" where
  "call_args (Run c) =
     (case words_of c of
        [f, n, a] \<Rightarrow> if f = Lit ''run_python_command'' then [(word_text n, word_text a)] else []
      | _ \<Rightarrow> [])"
| "call_args (Assign x v) = []"
| "call_args (FunDef f c) = []"

definition sweep_list :: "script \<Rightarrow> (string \<times> string) list" where
  "sweep_list sc = concat (map call_args sc)"

text \<open>
  Every started process with what the run had done before it (latest event first) and
  what it did from then on (the return of the process first).
\<close>

fun contexts :: "event list \<Rightarrow> event list \<Rightarrow> (event list \<times> string list \<times> event list) list" where
  "contexts seen [] = []"
| "contexts seen (Started argv # rest) =
     (seen, argv, rest) # contexts (Started argv # seen) rest"
| "contexts seen (e # rest) = contexts (e # seen) rest"

text \<open>
  The event right before a process was started, the sweep point of its command line and
  the event right after it returned.
\<close>

definition neighbours :: "event list \<times> string list \<times> event list
    \<Rightarrow> event option \<times> (string \<times> string) option \<times> event option" where
  "neighbours ctx =
     (case ctx of (seen, argv, rest) \<Rightarrow>
        (case seen of [] \<Rightarrow> None | e # _ \<Rightarrow> Some e,
         point_of argv,
         case rest of _ # e # _ \<Rightarrow> Some e | _ \<Rightarrow> None))"

text \<open>
  The markers of the scripts are the lines \<open>Starting <label>\<close> and \<open>Finished <label>\<close>.
  A label names a sweep point when it is the experiment name or its last field is the
  pruning amount: \<open>Baseline\<close> names \<open>(Baseline, 0)\<close>, and \<open>L1 0.1\<close> names
  \<open>(L1_0.1, 0.1)\<close>.
\<close>

definition names_point :: "string \<Rightarrow> string \<times> string \<Rightarrow> bool" where
  "names_point label p =
     (label = fst p \<or> (split_fields [] label \<noteq> [] \<and> last (split_fields [] label) = snd p))"

definition is_start_marker :: "string \<Rightarrow> string \<times> string \<Rightarrow> bool" where
  "is_start_marker line p = (take 9 line = ''Starting '' \<and> names_point (drop 9 line) p)"

definition is_finish_marker :: "string \<Rightarrow> string \<times> string \<Rightarrow> bool" where
  "is_finish_marker line p = (take 9 line = ''Finished '' \<and> names_point (drop 9 line) p)"

text \<open>
  A call bracketed by its markers with nothing in between: the start marker of its
  sweep point is the event right before the process, the finish marker of its sweep
  point the event right after its return.
\<close>

definition bracketed_as_claimed :: "event list \<times> string list \<times> event list \<Rightarrow> bool" where
  "bracketed_as_claimed ctx =
     (case ctx of
        (Printed s # seen, argv, Exited argv' c # Printed f # rest) \<Rightarrow>
          (case point_of argv of
             None \<Rightarrow> False
           | Some p \<Rightarrow> argv' = argv \<and> is_start_marker s p \<and> is_finish_marker f p)
      | _ \<Rightarrow> False)"

text \<open>
  A call as the scripts announce it: the start marker of its sweep point, then the line
  \<open>run_python_command\<close> (printed by \<open>echo run_python_command\<close>), then the
  process.
\<close>

definition announced :: "event list \<times> string list \<times> event list \<Rightarrow> bool" where
  "announced ctx =
     (case ctx of
        (Printed e # Printed s # seen, argv, rest) \<Rightarrow>
          (case point_of argv of
             None \<Rightarrow> False
           | Some p \<Rightarrow> e = ''run_python_command'' \<and> is_start_marker s p)
      | _ \<Rightarrow> False)"

text \<open>
  A call that is closed by its marker: the process returns and the event right after
  its return is the finish marker of its sweep point.
\<close>

definition finished :: "event list \<times> string list \<times> event list \<Rightarrow> bool" where
  "finished ctx =
     (case ctx of
        (seen, argv, Exited argv' c # Printed f # rest) \<Rightarrow>
          (case point_of argv of
             None \<Rightarrow> False
           | Some p \<Rightarrow> argv' = argv \<and> is_finish_marker f p)
      | _ \<Rightarrow> False)"

text \<open>The calls of a run but those at one sweep point.\<close>

definition except_point :: "string \<times> string
    \<Rightarrow> (event list \<times> string list \<times> event list) list
    \<Rightarrow> (event list \<times> string list \<times> event list) list" where
  "except_point p ctxs = filter (\<lambda>ctx. point_of (fst (snd ctx)) \<noteq> Some p) ctxs"

text \<open>
  A command line without the values of \<open>--exp_name\<close> and \<open>--prune_amount\<close>: what is
  left must be the same in two runs that differ in nothing else.
\<close>

fun fixed_part :: "string list \<Rightarrow> string list" where
  "fixed_part [] = []"
| "fixed_part [w] = [w]"
| "fixed_part (w # v # ws) =
     (if w = ''--exp_name'' \<or> w = ''--prune_amount'' then w # fixed_part ws
      else w # fixed_part (v # ws))"

text \<open>
  A run is blocking when every started process returns before anything else happens.
  \<open>running\<close> counts the processes that were started and did not return yet.
\<close>

fun blocking :: "event list \<Rightarrow> bool" where
  "blocking [] = True"
| "blocking (Printed l # tr) = blocking tr"
| "blocking (Started a # Exited b c # tr) = (a = b \<and> blocking tr)"
| "blocking (Started a # tr) = False"
| "blocking (Exited b c # tr) = False"

fun running :: "event list \<Rightarrow> int" where
  "running [] = 0"
| "running (Printed l # tr) = running tr"
| "running (Started a # tr) = running tr + 1"
| "running (Exited a c # tr) = running tr - 1"

text \<open>A statement that puts a command in the background.\<close>

fun backgrounded :: "stmt \<Rightarrow> bool" where
  "backgrounded (Run c) = is_async c"
| "backgrounded (FunDef f c) = is_async c"
| "backgrounded (Assign x v) = False"

text \<open>Two outcomes of the training program: every run succeeds, every run fails.\<close>

definition all_succeed :: extern where
  "all_succeed i argv = 0"

definition all_fail :: extern where
  "all_fail i argv = 1"

subsection \<open>The command lines of the five scripts\<close>

text \<open>
  The command line each script's \<open>run_python_command\<close> builds when \<open>$1\<close> and \<open>$2\<close>
  are one field each, and the five events of one call as the scripts write it: a
  marker, the line \<open>run_python_command\<close>, the process, its return and a marker. The
  runs of the scripts are proved equal to these below.
\<close>

definition poetry :: string where
  "poetry = ''/home/omar/miniconda3/envs/175-env/bin/poetry''"

definition argv_baseline :: "string list" where
  "argv_baseline = [poetry, ''run'', ''python'', ''cleanrl/dqn_atari.py'',
     ''--env-id'', ''SpaceInvadersNoFrameskip-v4'', ''--capture_video'',
     ''--buffer_size'', ''100000'', ''--save_model'', ''--track'']"

definition argv_part_000 :: "string \<Rightarrow> string \<Rightarrow> string list" where
  "argv_part_000 n a = [poetry, ''run'', ''python'', ''cleanrl/ppo_atari.py'',
     ''--exp_name'', n, ''--env-id'', ''SpaceInvadersNoFrameskip-v4'', ''--capture_video'',
     ''--save_model'', ''--total_timesteps'', ''2000000'', ''--track'', ''--prune'',
     ''--prune_amount'', a]"

definition argv_part_001 :: "string \<Rightarrow> string \<Rightarrow> string list" where
  "argv_part_001 n a = [poetry, ''run'', ''python'', ''cleanrl/dqn_atari.py'',
     ''--exp_name'', n, ''--env-id'', ''SpaceInvadersNoFrameskip-v4'', ''--capture_video'',
     ''--buffer_size'', ''100000'', ''--save_model'', ''--total_timesteps'', ''2000000'',
     ''--track'', ''--prune'', ''--prune_method'', ''random'', ''--prune_amount'', a]"

definition argv_part_002 :: "string \<Rightarrow> string \<Rightarrow> string list" where
  "argv_part_002 n a = [poetry, ''run'', ''python'', ''cleanrl/ppo_atari.py'',
     ''--exp_name'', n, ''--env-id'', ''SpaceInvadersNoFrameskip-v4'', ''--capture_video'',
     ''--total_timesteps'', ''10000'', ''--track'', ''--prune'', ''--prune_amount'', a,
     ''--prune_method'', ''random'', ''--save_model'']"

definition argv_ppo_random :: "string \<Rightarrow> string \<Rightarrow> string list" where
  "argv_ppo_random n a = [poetry, ''run'', ''python'', ''cleanrl/ppo_atari.py'',
     ''--exp_name'', n, ''--env-id'', ''SpaceInvadersNoFrameskip-v4'', ''--capture_video'',
     ''--total_timesteps'', ''2000000'', ''--track'', ''--prune'', ''--prune_amount'', a,
     ''--prune_method'', ''random'', ''--save_model'']"

definition bracket :: "extern \<Rightarrow> nat \<Rightarrow> string \<Rightarrow> string list \<Rightarrow> string \<Rightarrow> event list" where
  "bracket ext i start argv finish =
     [Printed start, Printed ''run_python_command'', Started argv,
      Exited argv (ext i argv), Printed finish]"

section \<open>The notebook\<close>

text \<open>
  The code cells of \<open>project.ipynb\<close> as syntax trees. A call holds its function, its
  positional arguments and its keyword arguments; a conditional expression holds its
  test, the value when the test holds and the value when it does not; a list
  comprehension holds its element, its variable and what it iterates over; an f-string
  holds its parts, literal text as \<open>Str\<close>. A decimal literal keeps its text.
\<close>

datatype expr =
    Name string
  | Str string
  | IntLit int
  | Dec string
  | BoolLit bool
  | Attr expr string
  | Call expr "expr list" "(string \<times> expr) list"
  | ListE "expr list"
  | IfExp expr expr expr
  | ListComp expr string expr
  | BinOp expr string expr
  | FString "expr list"

datatype pystmt =
    Import string string
  | FromImport string "string list"
  | AssignS string expr
  | ExprS expr

type_synonym cell = "pystmt list"

definition cell_imports :: cell where
  "cell_imports =
    [Import ''torch'' ''torch'',
     Import ''torch.nn'' ''nn'',
     Import ''gymnasium'' ''gym'',
     FromImport ''src.cleanrl_utils.evals.dqn_eval'' [''evaluate''],
     FromImport ''src.cleanrl.dqn_atari'' [''QNetwork'', ''make_env'']]"

definition cell_parameters :: cell where
  "cell_parameters =
    [AssignS ''device''
       (Call (Attr (Name ''torch'') ''device'')
          [IfExp (Call (Attr (Attr (Name ''torch'') ''cuda'') ''is_available'') [] [])
             (Str ''cuda'') (Str ''cpu'')] []),
     AssignS ''env_id'' (Str ''SpaceInvadersNoFrameskip-v4''),
     AssignS ''envs''
       (Call (Attr (Attr (Name ''gym'') ''vector'') ''SyncVectorEnv'')
          [ListE [Call (Name ''make_env'')
                    [Name ''env_id'', IntLit 0, IntLit 0, BoolLit False, Str ''''] []]] []),
     AssignS ''model''
       (Call (Attr (Call (Name ''QNetwork'') [Name ''envs''] []) ''to'') [Name ''device''] []),
     AssignS ''model_path'' (Str ''models/0.5_sparsity_dqn.cleanrl_model''),
     ExprS (Call (Attr (Name ''model'') ''load_state_dict'')
          [Call (Attr (Name ''torch'') ''load'') [Name ''model_path'']
             [(''map_location'', Name ''device'')]] []),
     ExprS (Call (Name ''print'') [FString [Str ''Device: '', Name ''device'']] [])]"

definition cell_sparsity :: cell where
  "cell_sparsity =
    [AssignS ''weights''
       (ListComp
          (IfExp (Call (Name ''isinstance'') [Name ''layer'', Attr (Name ''nn'') ''Linear''] [])
             (Attr (Name ''layer'') ''weight'')
             (Call (Attr (Name ''torch'') ''tensor'') [ListE [IntLit 0]] []))
          ''layer'' (Attr (Name ''model'') ''network'')),
     AssignS ''zero_weights''
       (Call (Name ''sum'')
          [ListComp
             (Call (Attr (Call (Attr (Name ''torch'') ''sum'')
                      [Call (Attr (Name ''torch'') ''eq'') [Name ''weight'', IntLit 0] []] [])
                   ''item'') [] [])
             ''weight'' (Name ''weights'')] []),
     AssignS ''nonzero_weights''
       (Call (Name ''sum'')
          [ListComp
             (Call (Attr (Call (Attr (Name ''torch'') ''count_nonzero'') [Name ''weight''] [])
                   ''item'') [] [])
             ''weight'' (Name ''weights'')] []),
     ExprS (Call (Name ''print'') [Str ''Zero weights:'', Name ''zero_weights''] []),
     ExprS (Call (Name ''print'') [Str ''Nonzero weights:'', Name ''nonzero_weights''] []),
     ExprS (Call (Name ''print'')
          [Str ''Total sparsity:'',
           BinOp (Name ''zero_weights'') ''/''
             (BinOp (Name ''zero_weights'') ''+'' (Name ''nonzero_weights''))] [])]"

definition cell_evaluate :: cell where
  "cell_evaluate =
    [AssignS ''episodic_returns''
       (Call (Name ''evaluate'')
          [Name ''model_path'', Name ''make_env'', Name ''env_id'']
          [(''eval_episodes'', IntLit 5),
           (''run_name'', Str ''dqn_eval''),
           (''Model'', Name ''QNetwork''),
           (''device'', Name ''device''),
           (''epsilon'', Dec ''0.05'')])]"

definition cell_mean :: cell where
  "cell_mean =
    [ExprS (Call (Name ''print'')
          [FString [Str ''Mean episodic return of 0.5 sparsity dqn: '',
             BinOp (Call (Name ''sum'') [Name ''episodic_returns''] []) ''/''
               (Call (Name ''len'') [Name ''episodic_returns''] [])]] [])]"

definition notebook :: "cell list" where
  "notebook = [cell_imports, cell_parameters, cell_sparsity, cell_evaluate, cell_mean]"

subsection \<open>Reading the notebook\<close>

text \<open>An expression and all expressions inside it, outermost first.\<close>

fun subexprs :: "expr \<Rightarrow> expr list" where
  "subexprs (Call g args kws) =
     Call g args kws # subexprs g @ concat (map subexprs args)
       @ concat (map (\<lambda>kw. subexprs (snd kw)) kws)"
| "subexprs (Attr e a) = Attr e a # subexprs e"
| "subexprs (ListE es) = ListE es # concat (map subexprs es)"
| "subexprs (IfExp t c e) = IfExp t c e # subexprs t @ subexprs c @ subexprs e"
| "subexprs (ListComp e v it) = ListComp e v it # subexprs e @ subexprs it"
| "subexprs (BinOp l opr r) = BinOp l opr r # subexprs l @ subexprs r"
| "subexprs (FString es) = FString es # concat (map subexprs es)"
| "subexprs e = [e]"

fun stmt_exprs :: "pystmt \<Rightarrow> expr list" where
  "stmt_exprs (AssignS x e) = subexprs e"
| "stmt_exprs (ExprS e) = subexprs e"
| "stmt_exprs (Import m x) = []"
| "stmt_exprs (FromImport m xs) = []"

fun is_call_of :: "string \<Rightarrow> expr \<Rightarrow> bool" where
  "is_call_of f (Call g args kws) = (g = Name f)"
| "is_call_of f e = False"

definition calls_of :: "string \<Rightarrow> cell list \<Rightarrow> expr list" where
  "calls_of f cells = filter (is_call_of f) (concat (map stmt_exprs (concat cells)))"

text \<open>The names a cell list binds to the result of a call of \<open>f\<close>.\<close>

fun result_name :: "string \<Rightarrow> pystmt \<Rightarrow> string list" where
  "result_name f (AssignS x e) = (if is_call_of f e then [x] else [])"
| "result_name f st = []"

definition results_of :: "string \<Rightarrow> cell list \<Rightarrow> string list" where
  "results_of f cells = concat (map (result_name f) (concat cells))"

text \<open>What a name stands for: the last statement of the cells that binds it.\<close>

datatype binding = Assigned expr | Imported string

fun binds :: "string \<Rightarrow> pystmt \<Rightarrow> binding option" where
  "binds x (AssignS y e) = (if x = y then Some (Assigned e) else None)"
| "binds x (Import m y) = (if x = y then Some (Imported m) else None)"
| "binds x (FromImport m ys) = (if x \<in> set ys then Some (Imported m) else None)"
| "binds x (ExprS e) = None"

fun binding_of :: "string \<Rightarrow> pystmt list \<Rightarrow> binding option" where
  "binding_of x [] = None"
| "binding_of x (st # sts) =
     (case binding_of x sts of Some b \<Rightarrow> Some b | None \<Rightarrow> binds x st)"

subsection \<open>Binding the arguments of a call\<close>

datatype py_error = ZeroDivisionError | TypeError

text \<open>
  Positional arguments go to the first parameters in order; one positional argument
  too many is a \<open>TypeError\<close>. The result is the bound pairs and the parameters left.
\<close>

fun bind_positional :: "string list \<Rightarrow> expr list \<Rightarrow> py_error + ((string \<times> expr) list \<times> string list)" where
  "bind_positional ps [] = Inr ([], ps)"
| "bind_positional [] (a # as) = Inl TypeError"
| "bind_positional (p # ps) (a # as) =
     (case bind_positional ps as of
        Inl e \<Rightarrow> Inl e
      | Inr (bound, rest) \<Rightarrow> Inr ((p, a) # bound, rest))"

text \<open>
  A keyword argument goes to the parameter of its name if that is still free; a keyword
  that names no parameter or a bound one is a \<open>TypeError\<close>, and so is a parameter left
  without an argument (the parameters are taken to have no defaults).
\<close>

fun bind_keywords :: "string list \<Rightarrow> (string \<times> expr) list \<Rightarrow> (string \<times> expr) list
    \<Rightarrow> py_error + (string \<times> expr) list" where
  "bind_keywords free bound [] = (if free = [] then Inr bound else Inl TypeError)"
| "bind_keywords free bound (kw # kws) =
     (if fst kw \<in> set free then bind_keywords (removeAll (fst kw) free) (bound @ [kw]) kws
      else Inl TypeError)"

fun bind_call :: "string list \<Rightarrow> expr \<Rightarrow> py_error + (string \<times> expr) list" where
  "bind_call params (Call g args kws) =
     (case bind_positional params args of
        Inl e \<Rightarrow> Inl e
      | Inr (bound, free) \<Rightarrow> bind_keywords free bound kws)"
| "bind_call params e = Inl TypeError"

text \<open>
  Modelled from the spec: the parameters of the external evaluation function
  \<open>evaluate\<close> of \<open>src.cleanrl_utils.evals.dqn_eval\<close>, which is not among the source
  files. The spec lists them by their roles, in this order: a model path, an environment
  constructor, an environment id, an episode count, a run name, a model class, a device
  and an exploration epsilon. The first three carry the names of their roles; the last
  five carry the keywords under which the notebook passes them.
\<close>

definition evaluate_params :: "string list" where
  "evaluate_params = [''model_path'', ''make_env'', ''env_id'', ''eval_episodes'', ''run_name'',
     ''Model'', ''device'', ''epsilon'']"

text \<open>The average as the spec words it: the sum of a name divided by its length.\<close>

definition mean_of :: "string \<Rightarrow> expr" where
  "mean_of x = BinOp (Call (Name ''sum'') [Name x] []) ''/'' (Call (Name ''len'') [Name x] [])"


subsection \<open>The sparsity cell\<close>

text \<open>
  A layer of \<open>model.network\<close> is an instance of \<open>nn.Linear\<close>, with its weight and its
  bias, or any other module, with whatever parameter tensors it has. A tensor is the
  list of its entries. The cell only compares entries with zero, so an entry is read as
  a real number (\<open>-0.0\<close> is zero; a NaN entry, which is not equal to zero for both
  library functions, is read as some nonzero number).
\<close>

datatype layer = Linear "real list" "real list" | Module "real list list"

text \<open>
  \<^verbatim>\<open>weights = [layer.weight if isinstance(layer, nn.Linear) else torch.tensor([0])
             for layer in model.network]\<close>
\<close>

fun layer_weight :: "layer \<Rightarrow> real list" where
  "layer_weight (Linear weight bias) = weight"
| "layer_weight (Module ps) = [0]"

definition weights :: "layer list \<Rightarrow> real list list" where
  "weights network = map layer_weight network"

text \<open>\<^verbatim>\<open>zero_weights = sum([torch.sum(torch.eq(weight, 0)).item() for weight in weights])\<close>\<close>

definition zero_weights :: "layer list \<Rightarrow> nat" where
  "zero_weights network =
     sum_list (map (\<lambda>weight. length (filter (\<lambda>x. x = 0) weight)) (weights network))"

text \<open>\<^verbatim>\<open>nonzero_weights = sum([torch.count_nonzero(weight).item() for weight in weights])\<close>\<close>

definition nonzero_weights :: "layer list \<Rightarrow> nat" where
  "nonzero_weights network =
     sum_list (map (\<lambda>weight. length (filter (\<lambda>x. x \<noteq> 0) weight)) (weights network))"

text \<open>
  \<^verbatim>\<open>zero_weights/(zero_weights+nonzero_weights)\<close>: the quotient of two integers, which
  raises \<open>ZeroDivisionError\<close> when the divisor is zero. The value is the exact quotient;
  Python prints the double nearest to it.
\<close>

definition total_sparsity :: "layer list \<Rightarrow> py_error + real" where
  "total_sparsity network =
     (if zero_weights network + nonzero_weights network = 0 then Inl ZeroDivisionError
      else Inr (real (zero_weights network)
                  / real (zero_weights network + nonzero_weights network)))"

text \<open>
  The counts the claim is worded in: the zero and the nonzero entries of the weights
  of the linear layers, and the number of layers that are not linear.
\<close>

fun linear_zeros :: "layer list \<Rightarrow> nat" where
  "linear_zeros [] = 0"
| "linear_zeros (Linear weight bias # ls) = length (filter (\<lambda>x. x = 0) weight) + linear_zeros ls"
| "linear_zeros (Module ps # ls) = linear_zeros ls"

fun linear_nonzeros :: "layer list \<Rightarrow> nat" where
  "linear_nonzeros [] = 0"
| "linear_nonzeros (Linear weight bias # ls) =
     length (filter (\<lambda>x. x \<noteq> 0) weight) + linear_nonzeros ls"
| "linear_nonzeros (Module ps # ls) = linear_nonzeros ls"

fun other_layers :: "layer list \<Rightarrow> nat" where
  "other_layers [] = 0"
| "other_layers (Linear weight bias # ls) = other_layers ls"
| "other_layers (Module ps # ls) = Suc (other_layers ls)"

section \<open>The runs of the scripts\<close>

lemmas shell_defs = trace_def init_shell_def run_cmd_def run_simple_def expand_words_def ifs_def

lemmas argv_defs = poetry_def argv_baseline_def argv_part_000_def argv_part_001_def
  argv_part_002_def argv_ppo_random_def bracket_def

lemma trace_baseline_sh:
  "trace ext baseline_sh =
     bracket ext 0 ''Creating baseline model'' argv_baseline ''Finished creating baseline model''"
  by (simp add: shell_defs argv_defs baseline_sh_def eval_nat_numeral)

lemma trace_part_000:
  "trace ext part_000 =
     bracket ext 0 ''Starting Baseline'' (argv_part_000 ''Baseline'' ''0'') ''Finished Baseline''
     @ bracket ext 1 ''Starting L1 0.1'' (argv_part_000 ''L1_0.1'' ''0.1'') ''Finished L1 0.1''
     @ bracket ext 2 ''Starting L1 0.3'' (argv_part_000 ''L1_0.3'' ''0.3'') ''Finished L1 0.3''
     @ bracket ext 3 ''Starting L1 0.5'' (argv_part_000 ''L1_0.5'' ''0.5'') ''Finished L1 0.5''"
  by (simp add: shell_defs argv_defs part_000_def eval_nat_numeral)

lemma trace_part_001:
  "trace ext part_001 =
     bracket ext 0 ''Starting R 0.05'' (argv_part_001 ''R_0.05'' ''0.05'') ''Finished R 0.01''
     @ bracket ext 1 ''Starting R 0.1'' (argv_part_001 ''R_0.1'' ''0.1'') ''Finished R 0.1''
     @ bracket ext 2 ''Starting R 0.3'' (argv_part_001 ''R_0.3'' ''0.3'') ''Finished R 0.3''
     @ bracket ext 3 ''Starting R 0.5'' (argv_part_001 ''R_0.5'' ''0.5'') ''Finished R 0.5''
     @ bracket ext 4 ''Starting R 0.8'' (argv_part_001 ''R_0.8'' ''0.8'') ''Finished R 0.8''"
  by (simp add: shell_defs argv_defs part_001_def eval_nat_numeral)

lemma trace_part_002:
  "trace ext part_002 =
     bracket ext 0 ''Starting L1 0.1'' (argv_part_002 ''ppo_sanity'' ''0.1'') ''Finished L1 0.1''"
  by (simp add: shell_defs argv_defs part_002_def eval_nat_numeral)

lemma trace_ppo_random_test_sh:
  "trace ext ppo_random_test_sh =
     bracket ext 0 ''Starting R 0.1'' (argv_ppo_random ''ppo_R_0.1'' ''0.1'') ''Finished R 0.1''
     @ bracket ext 1 ''Starting R 0.3'' (argv_ppo_random ''ppo_R_0.3'' ''0.3'') ''Finished R 0.3''
     @ bracket ext 2 ''Starting R 0.5'' (argv_ppo_random ''ppo_R_0.5'' ''0.5'') ''Finished R 0.5''"
  by (simp add: shell_defs argv_defs ppo_random_test_sh_def eval_nat_numeral)

lemmas traces = trace_baseline_sh trace_part_000 trace_part_001 trace_part_002
  trace_ppo_random_test_sh

lemma sweep_lists:
  "sweep_list part_000 =
     [(''Baseline'', ''0''), (''L1_0.1'', ''0.1''), (''L1_0.3'', ''0.3''), (''L1_0.5'', ''0.5'')]"
  "sweep_list part_001 =
     [(''R_0.05'', ''0.05''), (''R_0.1'', ''0.1''), (''R_0.3'', ''0.3''), (''R_0.5'', ''0.5''),
      (''R_0.8'', ''0.8'')]"
  "sweep_list ppo_random_test_sh =
     [(''ppo_R_0.1'', ''0.1''), (''ppo_R_0.3'', ''0.3''), (''ppo_R_0.5'', ''0.5'')]"
  by (simp_all add: sweep_list_def part_000_def part_001_def ppo_random_test_sh_def)

lemma halted_runs:
  "\<not> halted (run ext part_000 init_shell)"
  "\<not> halted (run ext part_001 init_shell)"
  "\<not> halted (run ext ppo_random_test_sh init_shell)"
  by (simp_all add: shell_defs part_000_def part_001_def ppo_random_test_sh_def)

text \<open>In a blocking run at most one process is running after any number of events.\<close>

lemma blocking_running:
  "blocking tr \<Longrightarrow> 0 \<le> running (take n tr) \<and> running (take n tr) \<le> 1"
proof (induction tr arbitrary: n rule: blocking.induct)
  case 1
  then show ?case by simp
next
  case (2 l tr)
  then show ?case by (cases n) auto
next
  case (3 a b c tr)
  show ?case
  proof (cases n)
    case 0
    then show ?thesis by simp
  next
    case (Suc m)
    note n = this
    show ?thesis
    proof (cases m)
      case 0
      with n show ?thesis by simp
    next
      case (Suc k)
      with n 3 show ?thesis by simp
    qed
  qed
qed simp_all

section \<open>The counts of the sparsity cell\<close>

lemma zero_weights_split: "zero_weights network = linear_zeros network + other_layers network"
  by (induction network rule: linear_zeros.induct) (simp_all add: zero_weights_def weights_def)

lemma nonzero_weights_linear: "nonzero_weights network = linear_nonzeros network"
  by (induction network rule: linear_nonzeros.induct)
    (simp_all add: nonzero_weights_def weights_def)

section \<open>The claims\<close>

text \<open>
  C1. Whatever the training program returns, every command line a script of the
  repository runs has only flags of the set \<open>--exp_name\<close>, \<open>--env-id\<close>,
  \<open>--capture_video\<close>, \<open>--buffer_size\<close>, \<open>--save_model\<close>, \<open>--total_timesteps\<close>,
  \<open>--track\<close>, \<open>--prune\<close>, \<open>--prune_amount\<close>, \<open>--prune_method\<close>, and every flag of the
  set is on a command line of some script.
\<close>

theorem C1_training_flags:
  "(\<forall>ext. \<forall>sc \<in> set all_scripts. \<forall>argv \<in> set (invocations (trace ext sc)).
      set (flags argv) \<subseteq> training_flags)
   \<and> (\<forall>ext. \<forall>f \<in> training_flags. \<exists>sc \<in> set all_scripts.
        \<exists>argv \<in> set (invocations (trace ext sc)). f \<in> set (flags argv))"
  by (simp add: all_scripts_def traces argv_defs flags_def training_flags_def del: set_filter)

theorem C1_training_flags_witness:
  "baseline_sh \<in> set all_scripts
   \<and> argv_baseline \<in> set (invocations (trace all_fail baseline_sh))
   \<and> set (flags argv_baseline) \<subseteq> training_flags
   \<and> ''--prune_method'' \<in> training_flags
   \<and> (\<exists>sc \<in> set all_scripts. \<exists>argv \<in> set (invocations (trace all_fail sc)).
         ''--prune_method'' \<in> set (flags argv))"
proof -
  have a: "baseline_sh \<in> set all_scripts"
    by (simp add: all_scripts_def)
  have b: "argv_baseline \<in> set (invocations (trace all_fail baseline_sh))"
    by (simp add: trace_baseline_sh bracket_def)
  have c: "''--prune_method'' \<in> training_flags"
    by (simp add: training_flags_def)
  from C1_training_flags a b c show ?thesis by blast
qed

text \<open>
  C2, as the spec states it, fails: in the sweep of DQN runs the event right before the
  first training run is the printed line \<open>run_python_command\<close>, which is no start
  marker, and the event right after it is the line \<open>Finished R 0.01\<close>, which does not
  name the sweep point \<open>(R_0.05, 0.05)\<close>.
\<close>

theorem C2_immediate_markers_counterexample:
  "map neighbours (take 1 (contexts [] (trace all_succeed part_001))) =
     [(Some (Printed ''run_python_command''), Some (''R_0.05'', ''0.05''),
       Some (Printed ''Finished R 0.01''))]
   \<and> \<not> is_start_marker ''run_python_command'' (''R_0.05'', ''0.05'')
   \<and> \<not> is_finish_marker ''Finished R 0.01'' (''R_0.05'', ''0.05'')
   \<and> \<not> list_all bracketed_as_claimed (contexts [] (trace all_succeed part_001))"
  by (simp add: traces argv_defs neighbours_def point_of_def is_start_marker_def
      is_finish_marker_def names_point_def bracketed_as_claimed_def ifs_def)

text \<open>
  C2, amended. Whatever the training program returns, a sweep script runs it once for
  every pair of its sweep list, in the order of the list, and the pairs of a list are
  distinct. Before each run the script prints the start marker of that sweep point and
  then the line \<open>run_python_command\<close>. Every run but the one at the sweep point
  \<open>(R_0.05, 0.05)\<close>, that is 4, 4 and 3 runs of the three sweep scripts, is
  followed right after its return by the finish marker of its sweep point. Nothing is
  said about the line after the run at \<open>(R_0.05, 0.05)\<close>.
\<close>

theorem C2_sweep_runs:
  "\<forall>ext.
     (\<forall>sc \<in> set sweep_scripts.
        map point_of (invocations (trace ext sc)) = map Some (sweep_list sc)
        \<and> distinct (sweep_list sc)
        \<and> list_all announced (contexts [] (trace ext sc))
        \<and> list_all finished (except_point (''R_0.05'', ''0.05'') (contexts [] (trace ext sc))))
     \<and> map (\<lambda>sc. length (except_point (''R_0.05'', ''0.05'') (contexts [] (trace ext sc))))
          sweep_scripts = [4, 4, 3]"
  by (simp add: sweep_scripts_def traces argv_defs point_of_def is_start_marker_def
      is_finish_marker_def names_point_def announced_def finished_def except_point_def
      ifs_def sweep_lists)

theorem C2_sweep_runs_witness:
  "part_001 \<in> set sweep_scripts
   \<and> map point_of (invocations (trace all_fail part_001)) = map Some (sweep_list part_001)
   \<and> distinct (sweep_list part_001)
   \<and> list_all announced (contexts [] (trace all_fail part_001))
   \<and> list_all finished (except_point (''R_0.05'', ''0.05'') (contexts [] (trace all_fail part_001)))
   \<and> length (except_point (''R_0.05'', ''0.05'') (contexts [] (trace all_fail part_001))) = 4
   \<and> length (contexts [] (trace all_fail part_001)) = 5"
proof -
  have m: "part_001 \<in> set sweep_scripts"
    by (simp add: sweep_scripts_def)
  have n: "length (contexts [] (trace all_fail part_001)) = 5"
    by (simp add: trace_part_001 bracket_def)
  have k: "length (except_point (''R_0.05'', ''0.05'') (contexts [] (trace all_fail part_001))) = 4"
    by (simp add: trace_part_001 argv_defs except_point_def point_of_def)
  from C2_sweep_runs m n k show ?thesis by blast
qed

text \<open>
  C3. The code cells of the notebook hold one call of \<open>evaluate\<close>, in the evaluation
  cell. Its three positional and five keyword arguments bind to the eight parameters of
  the evaluation function, one argument each and none left over: the names
  \<open>model_path\<close>, \<open>make_env\<close> and \<open>env_id\<close>, the episode count 5, the run name
  \<open>dqn_eval\<close>, the model class \<open>QNetwork\<close>, the name \<open>device\<close> and the epsilon 0.05.
  Before the call \<open>model_path\<close> and \<open>env_id\<close> are strings, \<open>device\<close> is a
  \<open>torch.device\<close>, and \<open>make_env\<close> and \<open>QNetwork\<close> are imported from
  \<open>src.cleanrl.dqn_atari\<close>. The result is bound to \<open>episodic_returns\<close>, and the
  last cell prints the sum of \<open>episodic_returns\<close> divided by its length.
\<close>

theorem C3_evaluate_call:
  "calls_of ''evaluate'' notebook = calls_of ''evaluate'' [cell_evaluate]
   \<and> calls_of ''evaluate'' notebook =
       [Call (Name ''evaluate'')
          [Name ''model_path'', Name ''make_env'', Name ''env_id'']
          [(''eval_episodes'', IntLit 5), (''run_name'', Str ''dqn_eval''),
           (''Model'', Name ''QNetwork''), (''device'', Name ''device''),
           (''epsilon'', Dec ''0.05'')]]
   \<and> map (bind_call evaluate_params) (calls_of ''evaluate'' notebook) =
       [Inr [(''model_path'', Name ''model_path''), (''make_env'', Name ''make_env''),
             (''env_id'', Name ''env_id''), (''eval_episodes'', IntLit 5),
             (''run_name'', Str ''dqn_eval''), (''Model'', Name ''QNetwork''),
             (''device'', Name ''device''), (''epsilon'', Dec ''0.05'')]]
   \<and> binding_of ''evaluate'' (concat (take 3 notebook)) =
       Some (Imported ''src.cleanrl_utils.evals.dqn_eval'')
   \<and> binding_of ''model_path'' (concat (take 3 notebook)) =
       Some (Assigned (Str ''models/0.5_sparsity_dqn.cleanrl_model''))
   \<and> binding_of ''make_env'' (concat (take 3 notebook)) = Some (Imported ''src.cleanrl.dqn_atari'')
   \<and> binding_of ''env_id'' (concat (take 3 notebook)) =
       Some (Assigned (Str ''SpaceInvadersNoFrameskip-v4''))
   \<and> binding_of ''QNetwork'' (concat (take 3 notebook)) = Some (Imported ''src.cleanrl.dqn_atari'')
   \<and> binding_of ''device'' (concat (take 3 notebook)) =
       Some (Assigned (Call (Attr (Name ''torch'') ''device'')
          [IfExp (Call (Attr (Attr (Name ''torch'') ''cuda'') ''is_available'') [] [])
             (Str ''cuda'') (Str ''cpu'')] []))
   \<and> results_of ''evaluate'' notebook = [''episodic_returns'']
   \<and> mean_of ''episodic_returns'' \<in> set (concat (map stmt_exprs cell_mean))"
  by (simp add: calls_of_def results_of_def notebook_def cell_imports_def cell_parameters_def
      cell_sparsity_def cell_evaluate_def cell_mean_def evaluate_params_def mean_of_def)

text \<open>
  C4, as the spec states it, fails: \<open>scripts/baseline.sh\<close> runs the training program
  once, not more than once.
\<close>

theorem C4_baseline_runs_once_counterexample:
  "\<not> 1 < length (invocations (trace all_succeed baseline_sh))"
  by (simp add: traces argv_defs)

text \<open>
  C4, amended. Every script runs the training program at least once, one run after the
  other, each on a command line built from the values of \<open>$path_to_poetry\<close> and
  \<open>$env\<close>; the three sweep scripts run it more than once. The numbers of runs are
  1 (\<open>baseline.sh\<close>), 4 (\<open>part_000\<close>), 5 (\<open>part_001\<close>), 1 (\<open>part_002\<close>) and
  3 (\<open>ppo/random_test.sh\<close>).
\<close>

theorem C4_run_counts:
  "\<forall>ext. map (\<lambda>sc. length (invocations (trace ext sc))) all_scripts = [1, 4, 5, 1, 3]
     \<and> (\<forall>sc \<in> set all_scripts. 1 \<le> length (invocations (trace ext sc))
           \<and> blocking (trace ext sc)
           \<and> (\<forall>argv \<in> set (invocations (trace ext sc)).
                 take 3 argv = [poetry, ''run'', ''python'']
                 \<and> flag_value ''--env-id'' argv = Some ''SpaceInvadersNoFrameskip-v4''))
     \<and> (\<forall>sc \<in> set sweep_scripts. 1 < length (invocations (trace ext sc)))"
  by (simp add: all_scripts_def sweep_scripts_def traces argv_defs)

theorem C4_run_counts_witness:
  "baseline_sh \<in> set all_scripts
   \<and> length (invocations (trace all_fail baseline_sh)) = 1
   \<and> blocking (trace all_fail baseline_sh)
   \<and> argv_baseline \<in> set (invocations (trace all_fail baseline_sh))
   \<and> flag_value ''--env-id'' argv_baseline = Some ''SpaceInvadersNoFrameskip-v4''
   \<and> ppo_random_test_sh \<in> set sweep_scripts
   \<and> 1 < length (invocations (trace all_fail ppo_random_test_sh))"
proof -
  have a: "baseline_sh \<in> set all_scripts"
    by (simp add: all_scripts_def)
  have b: "argv_baseline \<in> set (invocations (trace all_fail baseline_sh))"
    by (simp add: trace_baseline_sh bracket_def)
  have c: "ppo_random_test_sh \<in> set sweep_scripts"
    by (simp add: sweep_scripts_def)
  have d: "length (invocations (trace all_fail baseline_sh)) = 1"
    by (simp add: trace_baseline_sh bracket_def)
  from C4_run_counts a b c d show ?thesis by blast
qed

text \<open>
  C5. Whatever the training program returns, any two command lines a sweep script runs
  have the same length and are the same but for the values of \<open>--exp_name\<close> and
  \<open>--prune_amount\<close>, and no two runs of the script share an experiment name or a
  pruning amount.
\<close>

theorem C5_only_name_and_amount_vary:
  "\<forall>ext. \<forall>sc \<in> set sweep_scripts.
     (\<forall>a \<in> set (invocations (trace ext sc)). \<forall>b \<in> set (invocations (trace ext sc)).
        length a = length b \<and> fixed_part a = fixed_part b)
     \<and> distinct (map (flag_value ''--exp_name'') (invocations (trace ext sc)))
     \<and> distinct (map (flag_value ''--prune_amount'') (invocations (trace ext sc)))"
  by (simp add: sweep_scripts_def traces argv_defs)

theorem C5_only_name_and_amount_vary_witness:
  "part_000 \<in> set sweep_scripts
   \<and> argv_part_000 ''Baseline'' ''0'' \<in> set (invocations (trace all_succeed part_000))
   \<and> argv_part_000 ''L1_0.5'' ''0.5'' \<in> set (invocations (trace all_succeed part_000))
   \<and> argv_part_000 ''Baseline'' ''0'' \<noteq> argv_part_000 ''L1_0.5'' ''0.5''
   \<and> fixed_part (argv_part_000 ''Baseline'' ''0'') = fixed_part (argv_part_000 ''L1_0.5'' ''0.5'')"
proof -
  have m: "part_000 \<in> set sweep_scripts"
    by (simp add: sweep_scripts_def)
  have a: "argv_part_000 ''Baseline'' ''0'' \<in> set (invocations (trace all_succeed part_000))"
    by (simp add: trace_part_000 bracket_def)
  have b: "argv_part_000 ''L1_0.5'' ''0.5'' \<in> set (invocations (trace all_succeed part_000))"
    by (simp add: trace_part_000 bracket_def)
  have c: "argv_part_000 ''Baseline'' ''0'' \<noteq> argv_part_000 ''L1_0.5'' ''0.5''"
    by (simp add: argv_part_000_def)
  from C5_only_name_and_amount_vary m a b c show ?thesis by blast
qed

text \<open>
  C6. Whatever exit codes the training runs return, a sweep script starts the same
  command lines in the same order and prints the same lines as when every run succeeds:
  one run for every pair of its sweep list, no command line twice, and the shell does
  not stop before the end of the script.
\<close>

theorem C6_failures_ignored:
  "\<forall>ext. \<forall>sc \<in> set sweep_scripts.
     invocations (trace ext sc) = invocations (trace all_succeed sc)
     \<and> printed (trace ext sc) = printed (trace all_succeed sc)
     \<and> map point_of (invocations (trace ext sc)) = map Some (sweep_list sc)
     \<and> distinct (invocations (trace ext sc))
     \<and> \<not> halted (run ext sc init_shell)"
  by (simp add: sweep_scripts_def halted_runs traces argv_defs point_of_def sweep_lists)

theorem C6_failures_ignored_witness:
  "part_001 \<in> set sweep_scripts
   \<and> Exited (argv_part_001 ''R_0.05'' ''0.05'') 1 \<in> set (trace all_fail part_001)
   \<and> invocations (trace all_fail part_001) = invocations (trace all_succeed part_001)
   \<and> length (invocations (trace all_fail part_001)) = 5
   \<and> \<not> halted (run all_fail part_001 init_shell)"
proof -
  have m: "part_001 \<in> set sweep_scripts"
    by (simp add: sweep_scripts_def)
  have e: "Exited (argv_part_001 ''R_0.05'' ''0.05'') 1 \<in> set (trace all_fail part_001)"
    by (simp add: trace_part_001 bracket_def all_fail_def)
  have n: "length (invocations (trace all_fail part_001)) = 5"
    by (simp add: trace_part_001 bracket_def)
  from C6_failures_ignored m e n show ?thesis by blast
qed

text \<open>
  C7. No statement of any script puts a command in the background, every run of a
  script is blocking, and after any number of events of a run at most one training
  process is running.
\<close>

theorem C7_one_run_at_a_time:
  "\<forall>ext. \<forall>sc \<in> set all_scripts.
     list_all (\<lambda>st. \<not> backgrounded st) sc
     \<and> blocking (trace ext sc)
     \<and> (\<forall>n. 0 \<le> running (take n (trace ext sc)) \<and> running (take n (trace ext sc)) \<le> 1)"
proof (intro allI ballI conjI)
  fix ext sc
  assume sc: "sc \<in> set all_scripts"
  then show "list_all (\<lambda>st. \<not> backgrounded st) sc"
    by (auto simp add: all_scripts_def baseline_sh_def part_000_def part_001_def part_002_def
        ppo_random_test_sh_def)
  from sc show b: "blocking (trace ext sc)"
    by (auto simp add: all_scripts_def traces argv_defs)
  fix n
  from blocking_running [OF b]
  show "0 \<le> running (take n (trace ext sc))" "running (take n (trace ext sc)) \<le> 1"
    by simp_all
qed

theorem C7_one_run_at_a_time_witness:
  "part_001 \<in> set all_scripts
   \<and> blocking (trace all_fail part_001)
   \<and> running (take 3 (trace all_fail part_001)) = 1
   \<and> running (take 4 (trace all_fail part_001)) = 0
   \<and> running (take 8 (trace all_fail part_001)) \<le> 1"
proof -
  have m: "part_001 \<in> set all_scripts"
    by (simp add: all_scripts_def)
  have r: "running (take 3 (trace all_fail part_001)) = 1"
    "running (take 4 (trace all_fail part_001)) = 0"
    by (simp_all add: trace_part_001 bracket_def)
  from C7_one_run_at_a_time m r show ?thesis by blast
qed

text \<open>
  C8. For every network, the zero count of the sparsity cell is the number of zero
  entries of the weights of the linear layers plus the number of layers that are not
  linear, and its nonzero count is the number of nonzero entries of the weights of the
  linear layers: a layer that is not linear adds one to the zero count and nothing to
  the nonzero count, whatever parameters it has. The total sparsity is the first count
  divided by the sum of the two, and the division raises when that sum is zero.
\<close>

theorem C8_sparsity_counts:
  "zero_weights network = linear_zeros network + other_layers network
   \<and> nonzero_weights network = linear_nonzeros network
   \<and> zero_weights (Module ps # network) = Suc (zero_weights network)
   \<and> nonzero_weights (Module ps # network) = nonzero_weights network
   \<and> total_sparsity network =
       (if linear_zeros network + other_layers network + linear_nonzeros network = 0
        then Inl ZeroDivisionError
        else Inr (real (linear_zeros network + other_layers network)
                    / real (linear_zeros network + other_layers network
                              + linear_nonzeros network)))"
  by (simp add: total_sparsity_def zero_weights_split nonzero_weights_linear)

theorem C8_sparsity_counts_witness:
  "total_sparsity [Module [[0, 3], [1]], Linear [0, 2, 0, -1] [0, 0], Module []] = Inr (2 / 3)
   \<and> zero_weights [Module [[0, 3], [1]], Linear [0, 2, 0, -1] [0, 0], Module []] = 4
   \<and> nonzero_weights [Module [[0, 3], [1]], Linear [0, 2, 0, -1] [0, 0], Module []] = 2"
  using C8_sparsity_counts [of "[Module [[0, 3], [1]], Linear [0, 2, 0, -1] [0, 0], Module []]"]
  by simp

text \<open>
  C9. In the sweep of DQN runs the first five events are the line \<open>Starting R 0.05\<close>,
  the line \<open>run_python_command\<close>, the training run with experiment name \<open>R_0.05\<close> and
  pruning amount \<open>0.05\<close>, its return, and the line \<open>Finished R 0.01\<close>: the start marker
  names the sweep point and the finish marker does not.
\<close>

theorem C9_dqn_markers_disagree:
  "\<forall>ext. take 5 (trace ext part_001) =
       [Printed ''Starting R 0.05'', Printed ''run_python_command'',
        Started (argv_part_001 ''R_0.05'' ''0.05''),
        Exited (argv_part_001 ''R_0.05'' ''0.05'') (ext 0 (argv_part_001 ''R_0.05'' ''0.05'')),
        Printed ''Finished R 0.01'']
     \<and> point_of (argv_part_001 ''R_0.05'' ''0.05'') = Some (''R_0.05'', ''0.05'')
     \<and> is_start_marker ''Starting R 0.05'' (''R_0.05'', ''0.05'')
     \<and> \<not> is_finish_marker ''Finished R 0.01'' (''R_0.05'', ''0.05'')"
  by (simp add: traces argv_defs point_of_def is_start_marker_def is_finish_marker_def
      names_point_def ifs_def)

text \<open>
  C10. In the sweep marked \<open>L1\<close> the first run, announced by \<open>Starting Baseline\<close>, has
  the experiment name \<open>Baseline\<close>, the flag \<open>--prune\<close> and \<open>--prune_amount 0\<close>, and no
  command line of the script has the flag \<open>--prune_method\<close>.
\<close>

theorem C10_l1_baseline_pruned:
  "\<forall>ext. hd (invocations (trace ext part_000)) = argv_part_000 ''Baseline'' ''0''
     \<and> hd (printed (trace ext part_000)) = ''Starting Baseline''
     \<and> flag_value ''--exp_name'' (argv_part_000 ''Baseline'' ''0'') = Some ''Baseline''
     \<and> ''--prune'' \<in> set (flags (argv_part_000 ''Baseline'' ''0''))
     \<and> flag_value ''--prune_amount'' (argv_part_000 ''Baseline'' ''0'') = Some ''0''
     \<and> (\<forall>argv \<in> set (invocations (trace ext part_000)).
           ''--prune_method'' \<notin> set (flags argv))"
  by (simp add: traces argv_defs flags_def del: set_filter)

theorem C10_l1_baseline_pruned_witness:
  "argv_part_000 ''L1_0.3'' ''0.3'' \<in> set (invocations (trace all_succeed part_000))
   \<and> ''--prune_method'' \<notin> set (flags (argv_part_000 ''L1_0.3'' ''0.3''))
   \<and> hd (invocations (trace all_succeed part_000)) = argv_part_000 ''Baseline'' ''0''"
proof -
  have a: "argv_part_000 ''L1_0.3'' ''0.3'' \<in> set (invocations (trace all_succeed part_000))"
    by (simp add: trace_part_000 bracket_def)
  from C10_l1_baseline_pruned a show ?thesis by blast
qed

end
